theory Spec2Isabelle
  imports Complex_Main "HOL-Library.AList"
begin

section \<open>Weather dashboard: the forecast aggregation core\<close>

text \<open>
  The repository holds three Streamlit scripts, \<^verbatim>\<open>App.py\<close>, \<^verbatim>\<open>new.py\<close> and
  \<^verbatim>\<open>update.py\<close>. Each of them turns the 3-hour forecast list of OpenWeatherMap into an
  hourly slice (four parallel lists: labels, temperatures, conditions, icons) and into a
  daily summary (four parallel lists: day names, maxima, minima, icons), classifies the
  air quality index and prints the UTC offset. The scripts have no functions for these
  steps; the definitions below embed the loops as they stand in the script bodies and keep
  the names of the script variables.
\<close>

subsection \<open>Data\<close>

text \<open>
  One entry of \<^verbatim>\<open>forecast['list']\<close>: the fields the loops read, \<^verbatim>\<open>item["dt"]\<close>,
  \<^verbatim>\<open>item["main"]["temp"]\<close>, \<^verbatim>\<open>item["weather"][0]["description"]\<close> and
  \<^verbatim>\<open>item["weather"][0]["icon"]\<close>. The record has every field, as the data model of the
  specification has; a payload that lacks one is outside this embedding. Temperatures are
  JSON numbers, modelled as reals.
\<close>

record sample =
  dt :: int
  temp :: real
  description :: string
  icon :: string

text \<open>The four lists the hourly loop fills, and the four lists the daily loop fills.\<close>

record hourly_lists =
  hours :: "string list"
  temps :: "real list"
  conditions :: "string list"
  icons :: "string list"

record daily_lists =
  days :: "string list"
  temps_max :: "real list"
  temps_min :: "real list"
  icons_daily :: "string list"

text \<open>
  What Python raises in the modelled code. \<open>TimestampOutOfRange\<close> stands for the
  exception of \<^verbatim>\<open>datetime.fromtimestamp\<close> on an instant that is no date of the years
  1 to 9999 (a \<^verbatim>\<open>ValueError\<close>, or \<^verbatim>\<open>OverflowError\<close>/\<^verbatim>\<open>OSError\<close> further out);
  \<open>ValueError\<close> is numpy's on the reduction of an empty list, \<open>KeyError\<close> the
  one of a dictionary read at a key it does not hold.
\<close>

datatype error = TimestampOutOfRange | ValueError | KeyError

subsection \<open>Dates and their formats\<close>

text \<open>
  A \<^verbatim>\<open>datetime\<close> is represented by its wall-clock seconds since 1970-01-01 00:00, which
  was a Thursday. \<^verbatim>\<open>datetime.fromtimestamp(ts, timezone.utc)\<close> accepts the instants of
  the years 1 to 9999 and raises outside.
\<close>

definition MIN_TIMESTAMP :: int where
  "MIN_TIMESTAMP = - 62135596800"

definition MAX_TIMESTAMP :: int where
  "MAX_TIMESTAMP = 253402300799"

definition fromtimestamp_utc :: "int \<Rightarrow> error + int" where
  "fromtimestamp_utc ts =
     (if MIN_TIMESTAMP \<le> ts \<and> ts \<le> MAX_TIMESTAMP then Inr ts else Inl TimestampOutOfRange)"

text \<open>
  \<^verbatim>\<open>datetime.fromtimestamp(ts)\<close> without a zone gives the wall clock of the machine the
  script runs on. Its zone rules are no part of the repository: they are the parameter
  \<open>localtime\<close> of the daily loops, a function from the instant to the wall-clock seconds
  there, or to the exception. \<open>localtime_utc\<close> is the instance of a machine whose zone
  is UTC, and \<open>localtime_fixed\<close> of a machine at a fixed offset.
\<close>

type_synonym localtime = "int \<Rightarrow> error + int"

definition localtime_utc :: localtime where
  "localtime_utc ts = fromtimestamp_utc ts"

definition localtime_fixed :: "int \<Rightarrow> localtime" where
  "localtime_fixed off ts = fromtimestamp_utc (ts + off)"

text \<open>The \<^verbatim>\<open>hour\<close> attribute, and \<^verbatim>\<open>strftime\<close> for %a, %I and %p in the C locale.\<close>

definition hour_of :: "int \<Rightarrow> int" where
  "hour_of d = (d mod 86400) div 3600"

definition weekday :: "int \<Rightarrow> nat" where
  "weekday d = nat ((d div 86400 + 3) mod 7)"

definition day_abbr :: "string list" where
  "day_abbr = [''Mon'', ''Tue'', ''Wed'', ''Thu'', ''Fri'', ''Sat'', ''Sun'']"

definition strftime_a :: "int \<Rightarrow> string" where
  "strftime_a d = day_abbr ! weekday d"

fun str_nat :: "nat \<Rightarrow> string" where
  "str_nat n =
     (if n < 10 then [''0123456789'' ! n]
      else str_nat (n div 10) @ [''0123456789'' ! (n mod 10)])"

declare str_nat.simps [simp del]

text \<open>The format \<^verbatim>\<open>:02d\<close> of a number that is not negative: at least two digits.\<close>

definition fmt_02d :: "nat \<Rightarrow> string" where
  "fmt_02d n = replicate (2 - length (str_nat n)) (CHR ''0'') @ str_nat n"

definition strftime_I :: "int \<Rightarrow> string" where
  "strftime_I d = fmt_02d (if hour_of d mod 12 = 0 then 12 else nat (hour_of d mod 12))"

definition strftime_p :: "int \<Rightarrow> string" where
  "strftime_p d = (if hour_of d < 12 then ''AM'' else ''PM'')"

text \<open>\<^verbatim>\<open>s.lstrip('0')\<close> removes the zeros the string starts with.\<close>

definition lstrip_0 :: "string \<Rightarrow> string" where
  "lstrip_0 s = dropWhile (\<lambda>c. c = CHR ''0'') s"

text \<open>
  \<^verbatim>\<open>str.title()\<close> on ASCII text: a letter that follows no letter is put in upper case,
  a letter that follows a letter in lower case. Bytes outside ASCII count as uncased here.
\<close>

definition ascii_lowercase :: string where
  "ascii_lowercase = ''abcdefghijklmnopqrstuvwxyz''"

definition ascii_uppercase :: string where
  "ascii_uppercase = ''ABCDEFGHIJKLMNOPQRSTUVWXYZ''"

definition upper_char :: "char \<Rightarrow> char" where
  "upper_char c = (case map_of (zip ascii_lowercase ascii_uppercase) c of Some u \<Rightarrow> u | None \<Rightarrow> c)"

definition lower_char :: "char \<Rightarrow> char" where
  "lower_char c = (case map_of (zip ascii_uppercase ascii_lowercase) c of Some l \<Rightarrow> l | None \<Rightarrow> c)"

fun title_from :: "bool \<Rightarrow> string \<Rightarrow> string" where
  "title_from previous_is_cased [] = []"
| "title_from previous_is_cased (c # cs) =
     (if c \<in> set ascii_lowercase
      then (if previous_is_cased then c else upper_char c) # title_from True cs
      else if c \<in> set ascii_uppercase
      then (if previous_is_cased then lower_char c else c) # title_from True cs
      else c # title_from False cs)"

definition title :: "string \<Rightarrow> string" where
  "title s = title_from False s"

text \<open>\<^verbatim>\<open>xs[:n]\<close>: the first \<open>n\<close> elements, and all but the last \<open>-n\<close> when \<open>n\<close> is negative.\<close>

definition slice_to :: "int \<Rightarrow> 'a list \<Rightarrow> 'a list" where
  "slice_to n xs = (if 0 \<le> n then take (nat n) xs else take (nat (int (length xs) + n)) xs)"

subsection \<open>The hourly slice\<close>

text \<open>
  \<^verbatim>\<open>update.py\<close>, lines 330 to 345. The slider gives \<open>hours_to_show\<close>;
  \<^verbatim>\<open>num_chunks = hours_to_show // 3\<close>; the loop runs over
  \<^verbatim>\<open>forecast['list'][:num_chunks]\<close> and appends to the four lists. The label is
  \<^verbatim>\<open>strftime("%a %I %p").lstrip('0')\<close> of the instant \<open>dt + tz_offset_seconds\<close>.
\<close>

definition hour_label_update :: "int \<Rightarrow> error + string" where
  "hour_label_update local_time_ts =
     (case fromtimestamp_utc local_time_ts of
        Inl e \<Rightarrow> Inl e
      | Inr d \<Rightarrow> Inr (lstrip_0 (strftime_a d @ '' '' @ strftime_I d @ '' '' @ strftime_p d)))"

definition append_hour :: "hourly_lists \<Rightarrow> string \<Rightarrow> sample \<Rightarrow> hourly_lists" where
  "append_hour acc hour_label item =
     \<lparr>hours = hours acc @ [hour_label],
      temps = temps acc @ [temp item],
      conditions = conditions acc @ [title (description item)],
      icons = icons acc @ [icon item]\<rparr>"

definition no_hours :: hourly_lists where
  "no_hours = \<lparr>hours = [], temps = [], conditions = [], icons = []\<rparr>"

fun hourly_loop_update :: "int \<Rightarrow> sample list \<Rightarrow> hourly_lists \<Rightarrow> error + hourly_lists" where
  "hourly_loop_update tz_offset_seconds [] acc = Inr acc"
| "hourly_loop_update tz_offset_seconds (item # rest) acc =
     (case hour_label_update (dt item + tz_offset_seconds) of
        Inl e \<Rightarrow> Inl e
      | Inr hour_label \<Rightarrow>
          hourly_loop_update tz_offset_seconds rest (append_hour acc hour_label item))"

definition slice_hourly_update :: "int \<Rightarrow> int \<Rightarrow> sample list \<Rightarrow> error + hourly_lists" where
  "slice_hourly_update tz_offset_seconds hours_to_show forecast_list =
     hourly_loop_update tz_offset_seconds (slice_to (hours_to_show div 3) forecast_list) no_hours"

text \<open>
  \<^verbatim>\<open>App.py\<close>, lines 230 to 239, and \<^verbatim>\<open>new.py\<close>, lines 288 to 296: the same loop
  in both, over \<^verbatim>\<open>forecast['list'][:8]\<close>, with the label
  \<^verbatim>\<open>strftime("%I %p").lstrip('0')\<close>.
\<close>

definition hour_label_App :: "int \<Rightarrow> error + string" where
  "hour_label_App local_time_ts =
     (case fromtimestamp_utc local_time_ts of
        Inl e \<Rightarrow> Inl e
      | Inr d \<Rightarrow> Inr (lstrip_0 (strftime_I d @ '' '' @ strftime_p d)))"

fun hourly_loop_App :: "int \<Rightarrow> sample list \<Rightarrow> hourly_lists \<Rightarrow> error + hourly_lists" where
  "hourly_loop_App tz_offset_seconds [] acc = Inr acc"
| "hourly_loop_App tz_offset_seconds (item # rest) acc =
     (case hour_label_App (dt item + tz_offset_seconds) of
        Inl e \<Rightarrow> Inl e
      | Inr hour_label \<Rightarrow>
          hourly_loop_App tz_offset_seconds rest (append_hour acc hour_label item))"

definition slice_hourly_App :: "int \<Rightarrow> sample list \<Rightarrow> error + hourly_lists" where
  "slice_hourly_App tz_offset_seconds forecast_list =
     hourly_loop_App tz_offset_seconds (slice_to 8 forecast_list) no_hours"

definition hour_label_new :: "int \<Rightarrow> error + string" where
  "hour_label_new local_time_ts =
     (case fromtimestamp_utc local_time_ts of
        Inl e \<Rightarrow> Inl e
      | Inr d \<Rightarrow> Inr (lstrip_0 (strftime_I d @ '' '' @ strftime_p d)))"

fun hourly_loop_new :: "int \<Rightarrow> sample list \<Rightarrow> hourly_lists \<Rightarrow> error + hourly_lists" where
  "hourly_loop_new tz_offset_seconds [] acc = Inr acc"
| "hourly_loop_new tz_offset_seconds (item # rest) acc =
     (case hour_label_new (dt item + tz_offset_seconds) of
        Inl e \<Rightarrow> Inl e
      | Inr hour_label \<Rightarrow>
          hourly_loop_new tz_offset_seconds rest (append_hour acc hour_label item))"

definition slice_hourly_new :: "int \<Rightarrow> sample list \<Rightarrow> error + hourly_lists" where
  "slice_hourly_new tz_offset_seconds forecast_list =
     hourly_loop_new tz_offset_seconds (slice_to 8 forecast_list) no_hours"

subsection \<open>The daily summary\<close>

text \<open>
  \<^verbatim>\<open>daily_data\<close> is a dictionary from the day name to a dictionary of the day's values.
  A Python dictionary keeps its keys in the order of their insertion, and the summary
  reads \<^verbatim>\<open>list(daily_data.items())[:5]\<close>, so it is an association list here:
  \<open>map_of\<close> reads a key, \<open>AList.update\<close> assigns one (in place when the key is there,
  at the end when it is new). \<^verbatim>\<open>np.max\<close> and \<^verbatim>\<open>np.min\<close> raise on an empty list.
\<close>

record day_entry =
  entry_temps :: "real list"
  entry_icon :: string
  noon_diff :: int

type_synonym daily_dict = "(string \<times> day_entry) list"

fun np_max :: "real list \<Rightarrow> error + real" where
  "np_max [] = Inl ValueError"
| "np_max (x # xs) = Inr (fold max xs x)"

fun np_min :: "real list \<Rightarrow> error + real" where
  "np_min [] = Inl ValueError"
| "np_min (x # xs) = Inr (fold min xs x)"

definition no_days :: daily_lists where
  "no_days = \<lparr>days = [], temps_max = [], temps_min = [], icons_daily = []\<rparr>"

text \<open>
  \<^verbatim>\<open>update.py\<close>, lines 387 to 408. One turn of the first loop, after the day name and
  the hour of the item are known: the entry of a new day starts with no temperature, the
  item's icon and the distance 24; the temperature is appended; the icon is replaced when
  the item is strictly nearer to hour 12 than the entry's distance.
\<close>

definition daily_step_update :: "string \<Rightarrow> real \<Rightarrow> int \<Rightarrow> string \<Rightarrow> daily_dict \<Rightarrow> error + daily_dict" where
  "daily_step_update day_name tmp hour icn daily_data =
     (let daily_data1 =
            (if map_of daily_data day_name = None
             then AList.update day_name \<lparr>entry_temps = [], entry_icon = icn, noon_diff = 24\<rparr> daily_data
             else daily_data)
      in case map_of daily_data1 day_name of
           None \<Rightarrow> Inl KeyError
         | Some entry \<Rightarrow>
             (let entry1 = entry\<lparr>entry_temps := entry_temps entry @ [tmp]\<rparr>;
                  current_noon_diff = \<bar>12 - hour\<bar>;
                  entry2 =
                    (if current_noon_diff < noon_diff entry1
                     then entry1\<lparr>entry_icon := icn, noon_diff := current_noon_diff\<rparr>
                     else entry1)
              in Inr (AList.update day_name entry2 daily_data1)))"

fun daily_loop_update :: "localtime \<Rightarrow> sample list \<Rightarrow> daily_dict \<Rightarrow> error + daily_dict" where
  "daily_loop_update localtime [] daily_data = Inr daily_data"
| "daily_loop_update localtime (item # rest) daily_data =
     (case localtime (dt item) of
        Inl e \<Rightarrow> Inl e
      | Inr d \<Rightarrow>
          (case localtime (dt item) of
             Inl e \<Rightarrow> Inl e
           | Inr d' \<Rightarrow>
               (case daily_step_update (strftime_a d) (temp item) (hour_of d') (icon item) daily_data of
                  Inl e \<Rightarrow> Inl e
                | Inr daily_data' \<Rightarrow> daily_loop_update localtime rest daily_data')))"

fun emit_days_update :: "daily_dict \<Rightarrow> daily_lists \<Rightarrow> error + daily_lists" where
  "emit_days_update [] acc = Inr acc"
| "emit_days_update ((day, data) # rest) acc =
     (case np_max (entry_temps data) of
        Inl e \<Rightarrow> Inl e
      | Inr mx \<Rightarrow>
          (case np_min (entry_temps data) of
             Inl e \<Rightarrow> Inl e
           | Inr mn \<Rightarrow>
               emit_days_update rest
                 \<lparr>days = days acc @ [day],
                  temps_max = temps_max acc @ [mx],
                  temps_min = temps_min acc @ [mn],
                  icons_daily = icons_daily acc @ [entry_icon data]\<rparr>))"

definition summarize_daily_update :: "localtime \<Rightarrow> sample list \<Rightarrow> error + daily_lists" where
  "summarize_daily_update localtime forecast_list =
     (case daily_loop_update localtime forecast_list [] of
        Inl e \<Rightarrow> Inl e
      | Inr daily_data \<Rightarrow> emit_days_update (slice_to 5 daily_data) no_days)"

text \<open>
  \<^verbatim>\<open>App.py\<close>, lines 277 to 293, and \<^verbatim>\<open>new.py\<close>, lines 339 to 354: the entry of a day
  has the temperatures and the icon of the item that opened it; nothing replaces the icon.
\<close>

record day_entry_App =
  App_temps :: "real list"
  App_icon :: string

type_synonym daily_dict_App = "(string \<times> day_entry_App) list"

definition daily_step_App :: "string \<Rightarrow> real \<Rightarrow> string \<Rightarrow> daily_dict_App \<Rightarrow> error + daily_dict_App" where
  "daily_step_App day_name tmp icn daily_data =
     (let daily_data1 =
            (if map_of daily_data day_name = None
             then AList.update day_name \<lparr>App_temps = [], App_icon = icn\<rparr> daily_data
             else daily_data)
      in case map_of daily_data1 day_name of
           None \<Rightarrow> Inl KeyError
         | Some entry \<Rightarrow>
             Inr (AList.update day_name (entry\<lparr>App_temps := App_temps entry @ [tmp]\<rparr>) daily_data1))"

fun daily_loop_App :: "localtime \<Rightarrow> sample list \<Rightarrow> daily_dict_App \<Rightarrow> error + daily_dict_App" where
  "daily_loop_App localtime [] daily_data = Inr daily_data"
| "daily_loop_App localtime (item # rest) daily_data =
     (case localtime (dt item) of
        Inl e \<Rightarrow> Inl e
      | Inr d \<Rightarrow>
          (case daily_step_App (strftime_a d) (temp item) (icon item) daily_data of
             Inl e \<Rightarrow> Inl e
           | Inr daily_data' \<Rightarrow> daily_loop_App localtime rest daily_data'))"

fun emit_days_App :: "daily_dict_App \<Rightarrow> daily_lists \<Rightarrow> error + daily_lists" where
  "emit_days_App [] acc = Inr acc"
| "emit_days_App ((day, data) # rest) acc =
     (case np_max (App_temps data) of
        Inl e \<Rightarrow> Inl e
      | Inr mx \<Rightarrow>
          (case np_min (App_temps data) of
             Inl e \<Rightarrow> Inl e
           | Inr mn \<Rightarrow>
               emit_days_App rest
                 \<lparr>days = days acc @ [day],
                  temps_max = temps_max acc @ [mx],
                  temps_min = temps_min acc @ [mn],
                  icons_daily = icons_daily acc @ [App_icon data]\<rparr>))"

definition summarize_daily_App :: "localtime \<Rightarrow> sample list \<Rightarrow> error + daily_lists" where
  "summarize_daily_App localtime forecast_list =
     (case daily_loop_App localtime forecast_list [] of
        Inl e \<Rightarrow> Inl e
      | Inr daily_data \<Rightarrow> emit_days_App (slice_to 5 daily_data) no_days)"

fun daily_loop_new :: "localtime \<Rightarrow> sample list \<Rightarrow> daily_dict_App \<Rightarrow> error + daily_dict_App" where
  "daily_loop_new localtime [] daily_data = Inr daily_data"
| "daily_loop_new localtime (item # rest) daily_data =
     (case localtime (dt item) of
        Inl e \<Rightarrow> Inl e
      | Inr d \<Rightarrow>
          (case daily_step_App (strftime_a d) (temp item) (icon item) daily_data of
             Inl e \<Rightarrow> Inl e
           | Inr daily_data' \<Rightarrow> daily_loop_new localtime rest daily_data'))"

definition summarize_daily_new :: "localtime \<Rightarrow> sample list \<Rightarrow> error + daily_lists" where
  "summarize_daily_new localtime forecast_list =
     (case daily_loop_new localtime forecast_list [] of
        Inl e \<Rightarrow> Inl e
      | Inr daily_data \<Rightarrow> emit_days_App (slice_to 5 daily_data) no_days)"

subsection \<open>The UTC offset and the air quality category\<close>


text \<open>
  \<^verbatim>\<open>get_aqi_category\<close>: two dictionaries read with \<^verbatim>\<open>.get(aqi_value, default)\<close>. The
  argument is an integer or Python's \<^verbatim>\<open>None\<close>, here \<open>Some i\<close> or \<open>None\<close>. The colours
  are those of \<^verbatim>\<open>update.py\<close> and \<^verbatim>\<open>new.py\<close>; \<^verbatim>\<open>App.py\<close> has others.
\<close>

definition dict_get :: "('k \<rightharpoonup> 'v) \<Rightarrow> 'k \<Rightarrow> 'v \<Rightarrow> 'v" where
  "dict_get m k dflt = (case m k of None \<Rightarrow> dflt | Some v \<Rightarrow> v)"

definition aqi_map :: "int option \<rightharpoonup> string" where
  "aqi_map = [Some 1 \<mapsto> ''Good'', Some 2 \<mapsto> ''Fair'', Some 3 \<mapsto> ''Moderate'',
              Some 4 \<mapsto> ''Poor'', Some 5 \<mapsto> ''Very Poor'']"

definition aqi_color_map :: "int option \<rightharpoonup> string" where
  "aqi_color_map = [Some 1 \<mapsto> ''#00aa00'', Some 2 \<mapsto> ''#aaaa00'', Some 3 \<mapsto> ''#cc5500'',
                    Some 4 \<mapsto> ''#cc0000'', Some 5 \<mapsto> ''#77004c'']"

definition get_aqi_category :: "int option \<Rightarrow> string \<times> string" where
  "get_aqi_category aqi_value =
     (dict_get aqi_map aqi_value ''Unknown'', dict_get aqi_color_map aqi_value ''#333333'')"

definition aqi_color_map_App :: "int option \<rightharpoonup> string" where
  "aqi_color_map_App = [Some 1 \<mapsto> ''#00e400'', Some 2 \<mapsto> ''#ffff00'', Some 3 \<mapsto> ''#ff7e00'',
                        Some 4 \<mapsto> ''#ff0000'', Some 5 \<mapsto> ''#99004c'']"

definition get_aqi_category_App :: "int option \<Rightarrow> string \<times> string" where
  "get_aqi_category_App aqi_value =
     (dict_get aqi_map aqi_value ''Unknown'', dict_get aqi_color_map_App aqi_value ''white'')"

subsection \<open>Notions the properties are stated with\<close>

text \<open>
  An instant is representable when \<^verbatim>\<open>datetime\<close> has a date for it; \<open>label_update\<close>
  and \<open>label_App\<close> are the label texts of a representable instant.
\<close>

definition representable :: "int \<Rightarrow> bool" where
  "representable ts = (MIN_TIMESTAMP \<le> ts \<and> ts \<le> MAX_TIMESTAMP)"

definition label_update :: "int \<Rightarrow> string" where
  "label_update d = lstrip_0 (strftime_a d @ '' '' @ strftime_I d @ '' '' @ strftime_p d)"

definition label_App :: "int \<Rightarrow> string" where
  "label_App d = lstrip_0 (strftime_I d @ '' '' @ strftime_p d)"

text \<open>
  The scenario of the specification: eight samples three hours apart from 1970-01-01
  00:00 UTC, a Thursday, with the temperatures 20, 19, 18, 17, 18, 21, 24, 23.
\<close>

definition scenario :: "sample list" where
  "scenario =
     [\<lparr>dt = 0, temp = 20, description = ''clear sky'', icon = ''01n''\<rparr>,
      \<lparr>dt = 10800, temp = 19, description = ''clear sky'', icon = ''01n''\<rparr>,
      \<lparr>dt = 21600, temp = 18, description = ''few clouds'', icon = ''02d''\<rparr>,
      \<lparr>dt = 32400, temp = 17, description = ''light rain'', icon = ''10d''\<rparr>,
      \<lparr>dt = 43200, temp = 18, description = ''broken clouds'', icon = ''04d''\<rparr>,
      \<lparr>dt = 54000, temp = 21, description = ''few clouds'', icon = ''02d''\<rparr>,
      \<lparr>dt = 64800, temp = 24, description = ''clear sky'', icon = ''01d''\<rparr>,
      \<lparr>dt = 75600, temp = 23, description = ''clear sky'', icon = ''01n''\<rparr>]"

text \<open>
  A sample converts when \<open>localtime\<close> has a wall clock for its timestamp;
  \<open>day_name_of\<close> and \<open>hour_at\<close> are then the day name and the hour the daily loop
  reads off it.
\<close>

definition converts :: "localtime \<Rightarrow> sample \<Rightarrow> bool" where
  "converts localtime s = (\<not> isl (localtime (dt s)))"

definition day_name_of :: "localtime \<Rightarrow> sample \<Rightarrow> string" where
  "day_name_of localtime s = strftime_a (projr (localtime (dt s)))"

definition hour_at :: "localtime \<Rightarrow> sample \<Rightarrow> int" where
  "hour_at localtime s = hour_of (projr (localtime (dt s)))"

text \<open>
  The daily loop of \<^verbatim>\<open>update.py\<close> without its exceptions: \<open>new_entry\<close> is the entry
  of a day that was not seen yet, \<open>entry_step\<close> what one sample does to the entry of its
  day, and \<open>daily_fold\<close> the dictionary after the loop.
\<close>

definition new_entry :: "string \<Rightarrow> day_entry" where
  "new_entry icn = \<lparr>entry_temps = [], entry_icon = icn, noon_diff = 24\<rparr>"

definition entry_step :: "localtime \<Rightarrow> sample \<Rightarrow> day_entry \<Rightarrow> day_entry" where
  "entry_step localtime s entry =
     (if \<bar>12 - hour_at localtime s\<bar> < noon_diff entry
      then entry\<lparr>entry_temps := entry_temps entry @ [temp s], entry_icon := icon s,
            noon_diff := \<bar>12 - hour_at localtime s\<bar>\<rparr>
      else entry\<lparr>entry_temps := entry_temps entry @ [temp s]\<rparr>)"

definition entry_of :: "daily_dict \<Rightarrow> string \<Rightarrow> string \<Rightarrow> day_entry" where
  "entry_of daily_data k icn = (case map_of daily_data k of None \<Rightarrow> new_entry icn | Some e \<Rightarrow> e)"

fun daily_fold :: "localtime \<Rightarrow> sample list \<Rightarrow> daily_dict \<Rightarrow> daily_dict" where
  "daily_fold localtime [] daily_data = daily_data"
| "daily_fold localtime (s # rest) daily_data =
     daily_fold localtime rest
       (AList.update (day_name_of localtime s)
          (entry_step localtime s (entry_of daily_data (day_name_of localtime s) (icon s)))
          daily_data)"

text \<open>
  The specification's words for the summary: the keys in the order of their first
  occurrence, the samples of a day, and the sample of a day that is nearest to hour 12,
  where the first sample is the best one to start with and a later sample takes its
  place only when it is strictly nearer.
\<close>

primrec first_seen :: "'a list \<Rightarrow> 'a list" where
  "first_seen [] = []"
| "first_seen (k # ks) = k # filter (\<lambda>x. x \<noteq> k) (first_seen ks)"

definition day_group :: "localtime \<Rightarrow> string \<Rightarrow> sample list \<Rightarrow> sample list" where
  "day_group localtime k samples = filter (\<lambda>s. day_name_of localtime s = k) samples"

fun noon_best :: "localtime \<Rightarrow> sample \<Rightarrow> sample list \<Rightarrow> sample" where
  "noon_best localtime best [] = best"
| "noon_best localtime best (s # rest) =
     noon_best localtime
       (if \<bar>12 - hour_at localtime s\<bar> < \<bar>12 - hour_at localtime best\<bar> then s else best) rest"

definition representative :: "localtime \<Rightarrow> sample list \<Rightarrow> string" where
  "representative localtime g = (case g of [] \<Rightarrow> [] | s # rest \<Rightarrow> icon (noon_best localtime s rest))"

definition day_keys :: "localtime \<Rightarrow> sample list \<Rightarrow> string list" where
  "day_keys localtime samples = first_seen (map (day_name_of localtime) samples)"

definition group_entry :: "localtime \<Rightarrow> sample list \<Rightarrow> string \<Rightarrow> day_entry" where
  "group_entry lt xs k =
     (case day_group lt k xs of
        [] \<Rightarrow> new_entry []
      | s # g \<Rightarrow> fold (entry_step lt) (s # g) (new_entry (icon s)))"

text \<open>
  Inputs the properties are applied to: samples on six days from Thursday to Tuesday,
  not in the order of time; two samples of a day at the hours 9 and 15; a sample of
  Thursday 23:00 UTC; and a sample at the first second of the year 10000.
\<close>

definition six_days :: "sample list" where
  "six_days =
     [\<lparr>dt = 0, temp = 20, description = ''clear sky'', icon = ''01n''\<rparr>,
      \<lparr>dt = 86400, temp = 15, description = ''few clouds'', icon = ''02n''\<rparr>,
      \<lparr>dt = 43200, temp = 25, description = ''light rain'', icon = ''10d''\<rparr>,
      \<lparr>dt = 172800, temp = 11, description = ''clear sky'', icon = ''01n''\<rparr>,
      \<lparr>dt = 259200, temp = 12, description = ''clear sky'', icon = ''01n''\<rparr>,
      \<lparr>dt = 345600, temp = 13, description = ''clear sky'', icon = ''01n''\<rparr>,
      \<lparr>dt = 432000, temp = 14, description = ''mist'', icon = ''50n''\<rparr>,
      \<lparr>dt = 97200, temp = 9, description = ''snow'', icon = ''13n''\<rparr>]"


definition late_evening :: "sample list" where
  "late_evening = [\<lparr>dt = 82800, temp = 10, description = ''mist'', icon = ''50n''\<rparr>]"

definition year_10000 :: "sample list" where
  "year_10000 = [\<lparr>dt = 253402300800, temp = 10, description = ''mist'', icon = ''50n''\<rparr>]"

section \<open>Properties\<close>

subsection \<open>Formats\<close>

lemma str_nat_digit: "n < 10 \<Longrightarrow> str_nat n = [''0123456789'' ! n]"
  by (simp add: str_nat.simps)

lemma length_str_nat_2: "10 \<le> n \<Longrightarrow> n < 100 \<Longrightarrow> length (str_nat n) = 2"
proof -
  assume a: "10 \<le> n" and b: "n < 100"
  from b have "n div 10 < 10" by simp
  then have "length (str_nat (n div 10)) = 1" by (simp add: str_nat_digit)
  with a show ?thesis by (subst str_nat.simps) simp
qed

lemma length_fmt_02d: "n < 100 \<Longrightarrow> length (fmt_02d n) = 2"
proof (cases "n < 10")
  case True
  then show ?thesis by (simp add: fmt_02d_def str_nat_digit)
next
  case False
  assume "n < 100"
  with False have "length (str_nat n) = 2" by (simp add: length_str_nat_2)
  then show ?thesis by (simp add: fmt_02d_def)
qed

lemma hour_of_range: "0 \<le> hour_of d \<and> hour_of d < 24"
  unfolding hour_of_def by (simp add: pos_imp_zdiv_nonneg_iff)

lemma length_strftime_I: "length (strftime_I d) = 2"
proof -
  have "hour_of d mod 12 < 12" by simp
  then have "nat (hour_of d mod 12) < 100" by linarith
  then show ?thesis by (simp add: strftime_I_def length_fmt_02d)
qed

lemma weekday_lt: "weekday d < 7"
  by (simp add: weekday_def)

lemma strftime_a_in_day_abbr: "strftime_a d \<in> set day_abbr"
proof -
  have "weekday d < length day_abbr"
    using weekday_lt [of d] by (simp add: day_abbr_def)
  then show ?thesis unfolding strftime_a_def by (rule nth_mem)
qed

lemma lstrip_0_strftime_a: "lstrip_0 (strftime_a d @ s) = strftime_a d @ s"
  using strftime_a_in_day_abbr [of d] by (auto simp: day_abbr_def lstrip_0_def)

lemma label_update_unstripped:
  "label_update d = strftime_a d @ '' '' @ strftime_I d @ '' '' @ strftime_p d"
  by (simp add: label_update_def lstrip_0_strftime_a)

lemma slice_to_nonneg: "0 \<le> n \<Longrightarrow> slice_to n xs = take (nat n) xs"
  by (simp add: slice_to_def)

lemma slice_to_Nil: "slice_to n [] = []"
  by (simp add: slice_to_def)

subsection \<open>The hourly loops\<close>

lemma hour_label_update_Inr: "representable ts \<Longrightarrow> hour_label_update ts = Inr (label_update ts)"
  by (simp add: hour_label_update_def fromtimestamp_utc_def representable_def label_update_def)

lemma hour_label_update_Inl:
  "\<not> representable ts \<Longrightarrow> hour_label_update ts = Inl TimestampOutOfRange"
  by (simp add: hour_label_update_def fromtimestamp_utc_def representable_def)

lemma hour_label_App_Inr: "representable ts \<Longrightarrow> hour_label_App ts = Inr (label_App ts)"
  by (simp add: hour_label_App_def fromtimestamp_utc_def representable_def label_App_def)

lemma hour_label_App_Inl:
  "\<not> representable ts \<Longrightarrow> hour_label_App ts = Inl TimestampOutOfRange"
  by (simp add: hour_label_App_def fromtimestamp_utc_def representable_def)

lemma hourly_loop_update_Inr:
  "list_all (\<lambda>s. representable (dt s + tz)) xs \<Longrightarrow>
   hourly_loop_update tz xs acc =
     Inr \<lparr>hours = hours acc @ map (\<lambda>s. label_update (dt s + tz)) xs,
          temps = temps acc @ map temp xs,
          conditions = conditions acc @ map (\<lambda>s. title (description s)) xs,
          icons = icons acc @ map icon xs\<rparr>"
proof (induction xs arbitrary: acc)
  case Nil
  then show ?case by simp
next
  case (Cons x xs)
  then show ?case by (simp add: hour_label_update_Inr append_hour_def)
qed

lemma hourly_loop_App_Inr:
  "list_all (\<lambda>s. representable (dt s + tz)) xs \<Longrightarrow>
   hourly_loop_App tz xs acc =
     Inr \<lparr>hours = hours acc @ map (\<lambda>s. label_App (dt s + tz)) xs,
          temps = temps acc @ map temp xs,
          conditions = conditions acc @ map (\<lambda>s. title (description s)) xs,
          icons = icons acc @ map icon xs\<rparr>"
proof (induction xs arbitrary: acc)
  case Nil
  then show ?case by simp
next
  case (Cons x xs)
  then show ?case by (simp add: hour_label_App_Inr append_hour_def)
qed

lemma slice_hourly_update_Inr:
  assumes "0 \<le> w" and "list_all (\<lambda>s. representable (dt s + tz)) (take (nat (w div 3)) samples)"
  shows "slice_hourly_update tz w samples =
     Inr \<lparr>hours = map (\<lambda>s. label_update (dt s + tz)) (take (nat (w div 3)) samples),
          temps = map temp (take (nat (w div 3)) samples),
          conditions = map (\<lambda>s. title (description s)) (take (nat (w div 3)) samples),
          icons = map icon (take (nat (w div 3)) samples)\<rparr>"
proof -
  from assms(1) have "0 \<le> w div 3" by simp
  then have "slice_to (w div 3) samples = take (nat (w div 3)) samples"
    by (rule slice_to_nonneg)
  with assms(2) show ?thesis
    by (simp add: slice_hourly_update_def hourly_loop_update_Inr no_hours_def)
qed

lemma scenario_representable: "list_all (\<lambda>s. representable (dt s + 0)) scenario"
  by (simp add: scenario_def representable_def MIN_TIMESTAMP_def MAX_TIMESTAMP_def)

lemma scenario_length: "length scenario = 8"
  by (simp add: scenario_def)

text \<open>
  C6. With the window 24 the hourly slice of \<^verbatim>\<open>update.py\<close> has exactly
  \<open>min 8 (length samples)\<close> points, with the window 9 exactly \<open>min 3 (length samples)\<close>;
  they are the first \<open>window div 3\<close> samples in the order of the input. The samples
  taken have representable local instants, as the entries of a forecast have.
\<close>

theorem C6_window_correctness:
  "(list_all (\<lambda>s. representable (dt s + tz)) (take 8 samples) \<longrightarrow>
      (\<exists>out. slice_hourly_update tz 24 samples = Inr out
         \<and> length (hours out) = min 8 (length samples)
         \<and> length (temps out) = min 8 (length samples)
         \<and> length (conditions out) = min 8 (length samples)
         \<and> length (icons out) = min 8 (length samples)
         \<and> hours out = map (\<lambda>s. label_update (dt s + tz)) (take 8 samples)
         \<and> temps out = map temp (take 8 samples)
         \<and> conditions out = map (\<lambda>s. title (description s)) (take 8 samples)
         \<and> icons out = map icon (take 8 samples)))
   \<and> (list_all (\<lambda>s. representable (dt s + tz)) (take 3 samples) \<longrightarrow>
      (\<exists>out. slice_hourly_update tz 9 samples = Inr out
         \<and> length (hours out) = min 3 (length samples)
         \<and> length (temps out) = min 3 (length samples)
         \<and> length (conditions out) = min 3 (length samples)
         \<and> length (icons out) = min 3 (length samples)
         \<and> hours out = map (\<lambda>s. label_update (dt s + tz)) (take 3 samples)
         \<and> temps out = map temp (take 3 samples)
         \<and> conditions out = map (\<lambda>s. title (description s)) (take 3 samples)
         \<and> icons out = map icon (take 3 samples)))"
proof (intro conjI impI)
  assume a: "list_all (\<lambda>s. representable (dt s + tz)) (take 8 samples)"
  have "slice_hourly_update tz 24 samples =
     Inr \<lparr>hours = map (\<lambda>s. label_update (dt s + tz)) (take 8 samples),
          temps = map temp (take 8 samples),
          conditions = map (\<lambda>s. title (description s)) (take 8 samples),
          icons = map icon (take 8 samples)\<rparr>"
    using slice_hourly_update_Inr [of 24 tz samples] a by simp
  then show "\<exists>out. slice_hourly_update tz 24 samples = Inr out
         \<and> length (hours out) = min 8 (length samples)
         \<and> length (temps out) = min 8 (length samples)
         \<and> length (conditions out) = min 8 (length samples)
         \<and> length (icons out) = min 8 (length samples)
         \<and> hours out = map (\<lambda>s. label_update (dt s + tz)) (take 8 samples)
         \<and> temps out = map temp (take 8 samples)
         \<and> conditions out = map (\<lambda>s. title (description s)) (take 8 samples)
         \<and> icons out = map icon (take 8 samples)"
    by (simp add: min.commute)
next
  assume a: "list_all (\<lambda>s. representable (dt s + tz)) (take 3 samples)"
  have "slice_hourly_update tz 9 samples =
     Inr \<lparr>hours = map (\<lambda>s. label_update (dt s + tz)) (take 3 samples),
          temps = map temp (take 3 samples),
          conditions = map (\<lambda>s. title (description s)) (take 3 samples),
          icons = map icon (take 3 samples)\<rparr>"
    using slice_hourly_update_Inr [of 9 tz samples] a by simp
  then show "\<exists>out. slice_hourly_update tz 9 samples = Inr out
         \<and> length (hours out) = min 3 (length samples)
         \<and> length (temps out) = min 3 (length samples)
         \<and> length (conditions out) = min 3 (length samples)
         \<and> length (icons out) = min 3 (length samples)
         \<and> hours out = map (\<lambda>s. label_update (dt s + tz)) (take 3 samples)
         \<and> temps out = map temp (take 3 samples)
         \<and> conditions out = map (\<lambda>s. title (description s)) (take 3 samples)
         \<and> icons out = map icon (take 3 samples)"
    by (simp add: min.commute)
qed

lemma scenario_take_8: "list_all (\<lambda>s. representable (dt s + 0)) (take 8 scenario)"
  by (simp add: scenario_def representable_def MIN_TIMESTAMP_def MAX_TIMESTAMP_def)

lemma scenario_take_3: "list_all (\<lambda>s. representable (dt s + 0)) (take 3 scenario)"
  by (simp add: scenario_def representable_def MIN_TIMESTAMP_def MAX_TIMESTAMP_def)

lemma scenario_temps_8: "map temp (take 8 scenario) = [20, 19, 18, 17, 18, 21, 24, 23]"
  by (simp add: scenario_def)

lemma scenario_temps_3: "map temp (take 3 scenario) = [20, 19, 18]"
  by (simp add: scenario_def)

theorem C6_window_correctness_witness:
  "(\<exists>out. slice_hourly_update 0 24 scenario = Inr out \<and> length (hours out) = 8
      \<and> temps out = [20, 19, 18, 17, 18, 21, 24, 23])
   \<and> (\<exists>out. slice_hourly_update 0 9 scenario = Inr out \<and> length (hours out) = 3
      \<and> temps out = [20, 19, 18])"
proof -
  from C6_window_correctness [of 0 scenario] scenario_take_8 scenario_take_3
  obtain o1 o2 where
    "slice_hourly_update 0 24 scenario = Inr o1"
    "length (hours o1) = min 8 (length scenario)"
    "temps o1 = map temp (take 8 scenario)"
    "slice_hourly_update 0 9 scenario = Inr o2"
    "length (hours o2) = min 3 (length scenario)"
    "temps o2 = map temp (take 3 scenario)"
    by blast
  then show ?thesis
    by (simp only: scenario_temps_8 scenario_temps_3 scenario_length) simp
qed

text \<open>
  C2. The label of \<^verbatim>\<open>update.py\<close> is the weekday, a blank, the hour of the 12-hour clock
  in two digits, a blank and AM or PM: \<^verbatim>\<open>lstrip('0')\<close> acts on a text that starts with
  the weekday and removes nothing. The instant 10800 gives \<open>Thu 03 AM\<close>, and the
  scenario gives \<open>Thu 12 AM\<close>, \<open>Thu 03 AM\<close>, ..., \<open>Thu 09 PM\<close>, where the claim has
  \<open>Thu 3 AM\<close> and \<open>Thu 9 PM\<close>. The loop of \<^verbatim>\<open>App.py\<close>, which has no weekday, does
  strip the zero.
\<close>

theorem C2_label_keeps_leading_zero:
  "hour_label_update (10800 + 0) = Inr ''Thu 03 AM''
   \<and> hour_label_App (10800 + 0) = Inr ''3 AM''
   \<and> map_sum id hours (slice_hourly_update 0 24 scenario) =
       Inr [''Thu 12 AM'', ''Thu 03 AM'', ''Thu 06 AM'', ''Thu 09 AM'',
            ''Thu 12 PM'', ''Thu 03 PM'', ''Thu 06 PM'', ''Thu 09 PM'']"
  by code_simp

subsection \<open>The UTC offset\<close>






subsection \<open>The air quality category\<close>

text \<open>
  C9. \<^verbatim>\<open>get_aqi_category\<close> gives the indices 1 to 5 the labels Good, Fair, Moderate, Poor
  and Very Poor, each with its colour, and every other argument, \<^verbatim>\<open>None\<close> among them,
  the label Unknown with the colour of the default; it has no exception. 3 gives
  Moderate and 9 gives Unknown. \<^verbatim>\<open>App.py\<close> has the same labels with colours of its own.
\<close>

theorem C9_aqi_category:
  "get_aqi_category (Some 1) = (''Good'', ''#00aa00'')
   \<and> get_aqi_category (Some 2) = (''Fair'', ''#aaaa00'')
   \<and> get_aqi_category (Some 3) = (''Moderate'', ''#cc5500'')
   \<and> get_aqi_category (Some 4) = (''Poor'', ''#cc0000'')
   \<and> get_aqi_category (Some 5) = (''Very Poor'', ''#77004c'')
   \<and> (v \<notin> {Some 1, Some 2, Some 3, Some 4, Some 5} \<longrightarrow>
        get_aqi_category v = (''Unknown'', ''#333333'')
        \<and> get_aqi_category_App v = (''Unknown'', ''white''))
   \<and> get_aqi_category (Some 9) = (''Unknown'', ''#333333'')
   \<and> get_aqi_category None = (''Unknown'', ''#333333'')
   \<and> fst (get_aqi_category_App v) = fst (get_aqi_category v)"
  by (simp add: get_aqi_category_def get_aqi_category_App_def dict_get_def aqi_map_def
      aqi_color_map_def aqi_color_map_App_def)

theorem C9_aqi_category_witness:
  "get_aqi_category (Some 0) = (''Unknown'', ''#333333'')
   \<and> get_aqi_category_App (Some 0) = (''Unknown'', ''white'')
   \<and> get_aqi_category_App (Some 3) = (''Moderate'', ''#ff7e00'')"
proof -
  have "Some (0::int) \<notin> {Some 1, Some 2, Some 3, Some 4, Some 5}" by simp
  with C9_aqi_category [of "Some 0"]
  have "get_aqi_category (Some 0) = (''Unknown'', ''#333333'')
        \<and> get_aqi_category_App (Some 0) = (''Unknown'', ''white'')"
    by blast
  moreover have "get_aqi_category_App (Some 3) = (''Moderate'', ''#ff7e00'')"
    by (simp add: get_aqi_category_App_def dict_get_def aqi_map_def aqi_color_map_App_def)
  ultimately show ?thesis by simp
qed

subsection \<open>The daily loop of update.py\<close>

lemma daily_step_update_eq:
  "daily_step_update (day_name_of lt s) (temp s) (hour_at lt s) (icon s) dd =
     Inr (AList.update (day_name_of lt s)
            (entry_step lt s (entry_of dd (day_name_of lt s) (icon s))) dd)"
proof (cases "map_of dd (day_name_of lt s)")
  case None
  then show ?thesis
    by (simp add: daily_step_update_def entry_of_def entry_step_def new_entry_def
        update_conv' Let_def)
next
  case (Some e)
  then show ?thesis
    by (simp add: daily_step_update_def entry_of_def entry_step_def Let_def)
qed

lemma daily_loop_update_fold:
  "list_all (converts lt) xs \<Longrightarrow> daily_loop_update lt xs dd = Inr (daily_fold lt xs dd)"
proof (induction xs arbitrary: dd)
  case Nil
  then show ?case by simp
next
  case (Cons s xs)
  from Cons.prems have c0: "converts lt s" and r: "list_all (converts lt) xs"
    by simp_all
  from c0 have c: "\<not> isl (lt (dt s))" by (simp add: converts_def)
  from c obtain d where d: "lt (dt s) = Inr d" by (cases "lt (dt s)") simp_all
  have n: "strftime_a d = day_name_of lt s" and h: "hour_of d = hour_at lt s"
    by (simp_all add: day_name_of_def hour_at_def d)
  show ?case
    by (simp add: d n h daily_step_update_eq Cons.IH [OF r])
qed

lemma keys_daily_fold:
  "map fst (daily_fold lt xs dd) =
     map fst dd @ filter (\<lambda>k. k \<notin> set (map fst dd)) (first_seen (map (day_name_of lt) xs))"
proof (induction xs arbitrary: dd)
  case Nil
  then show ?case by simp
next
  case (Cons s xs)
  show ?case
  proof (cases "day_name_of lt s \<in> set (map fst dd)")
    case True
    then have "filter (\<lambda>k. k \<notin> set (map fst dd)) (filter (\<lambda>x. x \<noteq> day_name_of lt s) ys)
        = filter (\<lambda>k. k \<notin> set (map fst dd)) ys" for ys
      by (induction ys) auto
    with True show ?thesis by (simp add: Cons.IH update_keys)
  next
    case False
    have "filter (\<lambda>k. k \<notin> set (map fst dd) \<and> k \<noteq> day_name_of lt s) ys
        = filter (\<lambda>k. k \<notin> set (map fst dd)) (filter (\<lambda>x. x \<noteq> day_name_of lt s) ys)" for ys
      by (induction ys) auto
    with False show ?thesis by (simp add: Cons.IH update_keys)
  qed
qed

lemma map_of_daily_fold:
  "map_of (daily_fold lt xs dd) k =
     (case day_group lt k xs of
        [] \<Rightarrow> map_of dd k
      | s # g \<Rightarrow> Some (fold (entry_step lt) (s # g) (entry_of dd k (icon s))))"
proof (induction xs arbitrary: dd)
  case Nil
  then show ?case by (simp add: day_group_def)
next
  case (Cons s xs)
  show ?case
  proof (cases "day_name_of lt s = k")
    case True
    then show ?thesis
      by (simp add: Cons.IH day_group_def update_conv' entry_of_def split: list.splits)
  next
    case False
    then show ?thesis
      by (simp add: Cons.IH day_group_def update_conv' entry_of_def split: list.splits)
  qed
qed

lemma entry_temps_fold:
  "entry_temps (fold (entry_step lt) g e) = entry_temps e @ map temp g"
  by (induction g arbitrary: e) (simp_all add: entry_step_def)

lemma noon_fold:
  "entry_icon e = icon b \<Longrightarrow> noon_diff e = \<bar>12 - hour_at lt b\<bar> \<Longrightarrow>
   entry_icon (fold (entry_step lt) g e) = icon (noon_best lt b g)
   \<and> noon_diff (fold (entry_step lt) g e) = \<bar>12 - hour_at lt (noon_best lt b g)\<bar>"
proof (induction g arbitrary: e b)
  case Nil
  then show ?case by simp
next
  case (Cons s g)
  show ?case
  proof (cases "\<bar>12 - hour_at lt s\<bar> < \<bar>12 - hour_at lt b\<bar>")
    case True
    with Cons.prems have
      "entry_icon (entry_step lt s e) = icon s"
      "noon_diff (entry_step lt s e) = \<bar>12 - hour_at lt s\<bar>"
      by (simp_all add: entry_step_def)
    from Cons.IH [OF this] True show ?thesis by simp
  next
    case False
    with Cons.prems have
      "entry_icon (entry_step lt s e) = icon b"
      "noon_diff (entry_step lt s e) = \<bar>12 - hour_at lt b\<bar>"
      by (simp_all add: entry_step_def)
    from Cons.IH [OF this] False show ?thesis by simp
  qed
qed

lemma hour_at_range: "0 \<le> hour_at lt s \<and> hour_at lt s < 24"
  by (simp add: hour_at_def hour_of_range)

lemma first_of_group:
  "entry_icon (entry_step lt s (new_entry i)) = icon s
   \<and> noon_diff (entry_step lt s (new_entry i)) = \<bar>12 - hour_at lt s\<bar>"
proof -
  have "\<bar>12 - hour_at lt s\<bar> < 24" using hour_at_range [of lt s] by linarith
  then show ?thesis by (simp add: entry_step_def new_entry_def)
qed

lemma group_icon:
  "entry_icon (fold (entry_step lt) g (entry_step lt s (new_entry i))) = icon (noon_best lt s g)"
  using noon_fold [of "entry_step lt s (new_entry i)" s lt g] first_of_group [of lt s i]
  by simp

lemma entry_temps_step: "entry_temps (entry_step lt s e) = entry_temps e @ [temp s]"
  by (simp add: entry_step_def)

lemma noon_best_mem: "noon_best lt b g \<in> set (b # g)"
  by (induction g arbitrary: b) (auto split: if_splits)

lemma noon_best_le_best: "\<bar>12 - hour_at lt (noon_best lt b g)\<bar> \<le> \<bar>12 - hour_at lt b\<bar>"
proof (induction g arbitrary: b)
  case Nil
  then show ?case by simp
next
  case (Cons s g)
  show ?case
    using Cons.IH [of s] Cons.IH [of b] by (simp split: if_splits)
qed

lemma noon_best_min:
  "x \<in> set (b # g) \<Longrightarrow> \<bar>12 - hour_at lt (noon_best lt b g)\<bar> \<le> \<bar>12 - hour_at lt x\<bar>"
proof (induction g arbitrary: b)
  case Nil
  then show ?case by simp
next
  case (Cons s g)
  show ?case
  proof (cases "x = b \<or> x = s")
    case True
    then show ?thesis
      using noon_best_le_best [of lt s g] noon_best_le_best [of lt b g]
      by (auto split: if_splits)
  next
    case False
    with Cons.prems have "x \<in> set g" by simp
    then show ?thesis
      using Cons.IH [of s] Cons.IH [of b] by (simp split: if_splits)
  qed
qed

lemma np_max_Max: "ts \<noteq> [] \<Longrightarrow> np_max ts = Inr (Max (set ts))"
proof (cases ts)
  case Nil
  assume "ts \<noteq> []"
  with Nil show ?thesis by simp
next
  case (Cons x xs)
  then show ?thesis using Max.set_eq_fold [of x xs] by simp
qed

lemma np_min_Min: "ts \<noteq> [] \<Longrightarrow> np_min ts = Inr (Min (set ts))"
proof (cases ts)
  case Nil
  assume "ts \<noteq> []"
  with Nil show ?thesis by simp
next
  case (Cons x xs)
  then show ?thesis using Min.set_eq_fold [of x xs] by simp
qed

lemma emit_days_update_Inr:
  "list_all (\<lambda>p. entry_temps (snd p) \<noteq> []) dd \<Longrightarrow>
   emit_days_update dd acc =
     Inr \<lparr>days = days acc @ map fst dd,
          temps_max = temps_max acc @ map (\<lambda>p. Max (set (entry_temps (snd p)))) dd,
          temps_min = temps_min acc @ map (\<lambda>p. Min (set (entry_temps (snd p)))) dd,
          icons_daily = icons_daily acc @ map (\<lambda>p. entry_icon (snd p)) dd\<rparr>"
proof (induction dd arbitrary: acc)
  case Nil
  then show ?case by simp
next
  case (Cons p dd)
  obtain k e where p: "p = (k, e)" by (cases p)
  with Cons.prems have ne: "entry_temps e \<noteq> []"
    and r: "list_all (\<lambda>p. entry_temps (snd p) \<noteq> []) dd" by simp_all
  show ?case
    by (simp add: p np_max_Max [OF ne] np_min_Min [OF ne] Cons.IH [OF r])
qed

lemma distinct_first_seen: "distinct (first_seen ks)"
  by (induction ks) simp_all

lemma set_first_seen: "set (first_seen ks) = set ks"
  by (induction ks) auto

lemma alist_by_keys:
  "distinct (map fst dd) \<Longrightarrow> dd = map (\<lambda>k. (k, the (map_of dd k))) (map fst dd)"
proof (induction dd)
  case Nil
  then show ?case by simp
next
  case (Cons p dd)
  obtain k e where p: "p = (k, e)" by (cases p)
  from Cons.prems p have nk: "k \<notin> fst ` set dd" and d: "distinct (map fst dd)" by simp_all
  from nk have "map (\<lambda>x. (x, the (map_of ((k, e) # dd) x))) (map fst dd)
      = map (\<lambda>x. (x, the (map_of dd x))) (map fst dd)"
    by (intro map_cong) auto
  with Cons.IH [OF d] show ?case by (simp add: p)
qed

lemma day_group_nonempty: "k \<in> set (day_keys lt xs) \<Longrightarrow> day_group lt k xs \<noteq> []"
  by (auto simp: day_keys_def set_first_seen day_group_def filter_empty_conv)

lemma daily_fold_groups:
  "daily_fold lt xs [] = map (\<lambda>k. (k, group_entry lt xs k)) (day_keys lt xs)"
proof -
  let ?dd = "daily_fold lt xs []"
  have keys: "map fst ?dd = day_keys lt xs"
    by (simp add: keys_daily_fold day_keys_def)
  then have d: "distinct (map fst ?dd)" by (simp add: day_keys_def distinct_first_seen)
  have "the (map_of ?dd k) = group_entry lt xs k" if "k \<in> set (day_keys lt xs)" for k
    using day_group_nonempty [OF that]
    by (simp add: map_of_daily_fold group_entry_def entry_of_def split: list.splits)
  then have "map (\<lambda>k. (k, the (map_of ?dd k))) (day_keys lt xs)
      = map (\<lambda>k. (k, group_entry lt xs k)) (day_keys lt xs)"
    by (intro map_cong) auto
  with alist_by_keys [OF d] keys show ?thesis by simp
qed

lemma group_entry_temps:
  "entry_temps (group_entry lt xs k) = map temp (day_group lt k xs)"
  by (simp add: group_entry_def entry_temps_fold entry_temps_step new_entry_def split: list.splits)

lemma group_entry_icon:
  "day_group lt k xs \<noteq> [] \<Longrightarrow>
   entry_icon (group_entry lt xs k) = representative lt (day_group lt k xs)"
  by (simp add: group_entry_def representative_def group_icon split: list.splits)

lemma summarize_daily_update_Inr:
  assumes "list_all (converts lt) xs"
  shows "summarize_daily_update lt xs =
     Inr \<lparr>days = take 5 (day_keys lt xs),
          temps_max = map (\<lambda>k. Max (set (map temp (day_group lt k xs)))) (take 5 (day_keys lt xs)),
          temps_min = map (\<lambda>k. Min (set (map temp (day_group lt k xs)))) (take 5 (day_keys lt xs)),
          icons_daily = map (\<lambda>k. representative lt (day_group lt k xs)) (take 5 (day_keys lt xs))\<rparr>"
proof -
  let ?ks = "take 5 (day_keys lt xs)"
  let ?dd = "map (\<lambda>k. (k, group_entry lt xs k)) ?ks"
  have mem: "k \<in> set ?ks \<Longrightarrow> day_group lt k xs \<noteq> []" for k
    using day_group_nonempty [of k lt xs] by (auto dest: in_set_takeD)
  have sl: "slice_to 5 (daily_fold lt xs []) = ?dd"
    by (simp add: slice_to_nonneg daily_fold_groups take_map)
  have ne: "list_all (\<lambda>p. entry_temps (snd p) \<noteq> []) ?dd"
    using mem by (simp add: list_all_iff group_entry_temps)
  have ic: "map (\<lambda>p. entry_icon (snd p)) ?dd = map (\<lambda>k. representative lt (day_group lt k xs)) ?ks"
    using mem by (simp add: group_entry_icon)
  have mx: "map (\<lambda>p. Max (set (entry_temps (snd p)))) ?dd
      = map (\<lambda>k. Max (set (map temp (day_group lt k xs)))) ?ks"
    by (simp add: group_entry_temps comp_def)
  have mn: "map (\<lambda>p. Min (set (entry_temps (snd p)))) ?dd
      = map (\<lambda>k. Min (set (map temp (day_group lt k xs)))) ?ks"
    by (simp add: group_entry_temps comp_def)
  have ky: "map fst ?dd = ?ks" by (simp add: comp_def)
  show ?thesis
    unfolding summarize_daily_update_def daily_loop_update_fold [OF assms] sum.case sl
      emit_days_update_Inr [OF ne] ic mx mn ky
    by (simp add: no_days_def)
qed

lemma np_min_le_np_max: "np_min ts = Inr mn \<Longrightarrow> np_max ts = Inr mx \<Longrightarrow> mn \<le> mx"
proof (cases ts)
  case Nil
  assume "np_min ts = Inr mn"
  with Nil show ?thesis by simp
next
  case (Cons x xs)
  assume a: "np_min ts = Inr mn" and b: "np_max ts = Inr mx"
  from Cons have ne: "ts \<noteq> []" by simp
  from a b have "mn = Min (set ts)" "mx = Max (set ts)"
    by (simp_all add: np_min_Min [OF ne] np_max_Max [OF ne])
  moreover from Cons have "x \<in> set ts" by simp
  then have "Min (set ts) \<le> x" "x \<le> Max (set ts)" by simp_all
  ultimately show ?thesis by simp
qed

lemma emit_days_update_le:
  "emit_days_update dd acc = Inr out \<Longrightarrow> list_all2 (\<le>) (temps_min acc) (temps_max acc) \<Longrightarrow>
   list_all2 (\<le>) (temps_min out) (temps_max out)"
proof (induction dd arbitrary: acc)
  case Nil
  then show ?case by simp
next
  case (Cons p dd)
  obtain k e where p: "p = (k, e)" by (cases p)
  from Cons.prems(1) p obtain mx mn where
    mx: "np_max (entry_temps e) = Inr mx" and mn: "np_min (entry_temps e) = Inr mn"
    and r: "emit_days_update dd
              \<lparr>days = days acc @ [k], temps_max = temps_max acc @ [mx],
               temps_min = temps_min acc @ [mn], icons_daily = icons_daily acc @ [entry_icon e]\<rparr>
            = Inr out"
    by (auto split: sum.splits)
  from np_min_le_np_max [OF mn mx] Cons.prems(2)
  have "list_all2 (\<le>) (temps_min acc @ [mn]) (temps_max acc @ [mx])"
    by (simp add: list_all2_appendI)
  with Cons.IH [OF r] show ?case by simp
qed

text \<open>
  C10. In every summary \<^verbatim>\<open>update.py\<close> returns, the minimum of a day is at most its
  maximum, position by position. When the timestamps convert, a summary is returned, and
  the two values of a day are the least and the greatest element of the same list, the
  temperatures of the day's samples, which is not empty.
\<close>

theorem C10_min_le_max:
  "(\<forall>out. summarize_daily_update lt samples = Inr out \<longrightarrow>
      list_all2 (\<le>) (temps_min out) (temps_max out))
   \<and> (list_all (converts lt) samples \<longrightarrow>
        (\<exists>out. summarize_daily_update lt samples = Inr out
           \<and> temps_min out = map (\<lambda>k. Min (set (map temp (day_group lt k samples)))) (days out)
           \<and> temps_max out = map (\<lambda>k. Max (set (map temp (day_group lt k samples)))) (days out)
           \<and> list_all (\<lambda>k. day_group lt k samples \<noteq> []) (days out)))"
proof (intro conjI allI impI)
  fix out
  assume "summarize_daily_update lt samples = Inr out"
  then obtain dd where "emit_days_update (slice_to 5 dd) no_days = Inr out"
    by (auto simp: summarize_daily_update_def split: sum.splits)
  from emit_days_update_le [OF this] show "list_all2 (\<le>) (temps_min out) (temps_max out)"
    by (simp add: no_days_def)
next
  assume a: "list_all (converts lt) samples"
  have "list_all (\<lambda>k. day_group lt k samples \<noteq> []) (take 5 (day_keys lt samples))"
    using day_group_nonempty [of _ lt samples] by (auto simp: list_all_iff dest: in_set_takeD)
  then show "\<exists>out. summarize_daily_update lt samples = Inr out
           \<and> temps_min out = map (\<lambda>k. Min (set (map temp (day_group lt k samples)))) (days out)
           \<and> temps_max out = map (\<lambda>k. Max (set (map temp (day_group lt k samples)))) (days out)
           \<and> list_all (\<lambda>k. day_group lt k samples \<noteq> []) (days out)"
    by (simp add: summarize_daily_update_Inr [OF a])
qed

lemma six_days_converts: "list_all (converts localtime_utc) six_days"
  by code_simp

lemma six_days_summary:
  "summarize_daily_update localtime_utc six_days =
     Inr \<lparr>days = [''Thu'', ''Fri'', ''Sat'', ''Sun'', ''Mon''],
          temps_max = [25, 15, 11, 12, 13],
          temps_min = [20, 9, 11, 12, 13],
          icons_daily = [''10d'', ''13n'', ''01n'', ''01n'', ''01n'']\<rparr>"
  by code_simp

theorem C10_min_le_max_witness:
  "summarize_daily_update localtime_utc six_days =
     Inr \<lparr>days = [''Thu'', ''Fri'', ''Sat'', ''Sun'', ''Mon''],
          temps_max = [25, 15, 11, 12, 13],
          temps_min = [20, 9, 11, 12, 13],
          icons_daily = [''10d'', ''13n'', ''01n'', ''01n'', ''01n'']\<rparr>
   \<and> list_all2 (\<le>) [20, 9, 11, 12, 13] [25, 15, 11, 12, (13::real)]"
proof -
  from C10_min_le_max [of localtime_utc six_days] six_days_summary
  have "list_all2 (\<le>) [20, 9, 11, 12, 13] [25, 15, 11, 12, (13::real)]"
    by simp
  with six_days_summary show ?thesis by (simp only: simp_thms)
qed

text \<open>
  C8. The days of the summary are the first five of the day names in the order in which
  each name first occurs in the input: at most five, no name twice, and a sixth name
  and those after it are left out, whatever follows. Each day that is kept has the
  values of all its samples.
\<close>

theorem C8_first_seen_order:
  "list_all (converts lt) samples \<longrightarrow>
     (\<exists>out. summarize_daily_update lt samples = Inr out
        \<and> days out = take 5 (first_seen (map (day_name_of lt) samples))
        \<and> length (days out) = min 5 (length (first_seen (map (day_name_of lt) samples)))
        \<and> length (days out) \<le> 5
        \<and> length (temps_max out) = length (days out)
        \<and> length (temps_min out) = length (days out)
        \<and> length (icons_daily out) = length (days out)
        \<and> distinct (days out)
        \<and> temps_max out = map (\<lambda>k. Max (set (map temp (day_group lt k samples)))) (days out)
        \<and> temps_min out = map (\<lambda>k. Min (set (map temp (day_group lt k samples)))) (days out)
        \<and> icons_daily out = map (\<lambda>k. representative lt (day_group lt k samples)) (days out))"
proof
  assume a: "list_all (converts lt) samples"
  have "distinct (take 5 (first_seen (map (day_name_of lt) samples)))"
    by (simp add: distinct_first_seen)
  then show "\<exists>out. summarize_daily_update lt samples = Inr out
        \<and> days out = take 5 (first_seen (map (day_name_of lt) samples))
        \<and> length (days out) = min 5 (length (first_seen (map (day_name_of lt) samples)))
        \<and> length (days out) \<le> 5
        \<and> length (temps_max out) = length (days out)
        \<and> length (temps_min out) = length (days out)
        \<and> length (icons_daily out) = length (days out)
        \<and> distinct (days out)
        \<and> temps_max out = map (\<lambda>k. Max (set (map temp (day_group lt k samples)))) (days out)
        \<and> temps_min out = map (\<lambda>k. Min (set (map temp (day_group lt k samples)))) (days out)
        \<and> icons_daily out = map (\<lambda>k. representative lt (day_group lt k samples)) (days out)"
    by (simp add: summarize_daily_update_Inr [OF a] day_keys_def min.commute)
qed

lemma six_days_keys:
  "first_seen (map (day_name_of localtime_utc) six_days)
     = [''Thu'', ''Fri'', ''Sat'', ''Sun'', ''Mon'', ''Tue'']"
  by code_simp

theorem C8_first_seen_order_witness:
  "list_all (converts localtime_utc) six_days
   \<and> first_seen (map (day_name_of localtime_utc) six_days)
       = [''Thu'', ''Fri'', ''Sat'', ''Sun'', ''Mon'', ''Tue'']
   \<and> (\<exists>out. summarize_daily_update localtime_utc six_days = Inr out
         \<and> days out = [''Thu'', ''Fri'', ''Sat'', ''Sun'', ''Mon''])"
proof -
  from C8_first_seen_order [of localtime_utc six_days] six_days_converts
  obtain out where "summarize_daily_update localtime_utc six_days = Inr out"
    "days out = take 5 (first_seen (map (day_name_of localtime_utc) six_days))"
    by blast
  then have "\<exists>out. summarize_daily_update localtime_utc six_days = Inr out
         \<and> days out = [''Thu'', ''Fri'', ''Sat'', ''Sun'', ''Mon'']"
    by (simp add: six_days_keys)
  with six_days_converts six_days_keys show ?thesis by (simp only: simp_thms)
qed

subsection \<open>The icon of a day\<close>









subsection \<open>The day of the summary and the day of the hourly label\<close>

text \<open>
  C5. The key of a sample in the daily summary of \<^verbatim>\<open>update.py\<close> is the weekday of the
  timestamp as it is, read on the machine's clock; the offset of the city is no argument
  of the summary. The label of the same sample in the hourly slice starts with the
  weekday of the timestamp plus the offset. This holds for every list and every offset.
  The sample of Thursday 23:00 UTC with the offset of two hours has the label
  \<open>Fri 01 AM\<close> and the key \<open>Thu\<close>.
\<close>

theorem C5_day_key_without_offset:
  "(list_all (converts lt) samples \<longrightarrow>
      (\<exists>out. summarize_daily_update lt samples = Inr out
         \<and> days out = take 5 (first_seen (map (\<lambda>s. strftime_a (projr (lt (dt s)))) samples))))
   \<and> (list_all (\<lambda>s. representable (dt s)) samples \<longrightarrow>
      (\<exists>out. summarize_daily_update localtime_utc samples = Inr out
         \<and> days out = take 5 (first_seen (map (\<lambda>s. strftime_a (dt s)) samples))))
   \<and> (0 \<le> w \<and> list_all (\<lambda>s. representable (dt s + tz)) (take (nat (w div 3)) samples) \<longrightarrow>
      (\<exists>out. slice_hourly_update tz w samples = Inr out
         \<and> hours out =
             map (\<lambda>s. strftime_a (dt s + tz) @ '' '' @ strftime_I (dt s + tz) @ '' ''
                        @ strftime_p (dt s + tz))
               (take (nat (w div 3)) samples)))"
proof (intro conjI impI)
  assume c: "list_all (converts lt) samples"
  have "map (day_name_of lt) samples = map (\<lambda>s. strftime_a (projr (lt (dt s)))) samples"
    by (simp add: day_name_of_def)
  then have k: "day_keys lt samples
      = first_seen (map (\<lambda>s. strftime_a (projr (lt (dt s)))) samples)"
    by (simp only: day_keys_def)
  show "\<exists>out. summarize_daily_update lt samples = Inr out
         \<and> days out = take 5 (first_seen (map (\<lambda>s. strftime_a (projr (lt (dt s)))) samples))"
    by (simp add: summarize_daily_update_Inr [OF c] k)
next
  assume r: "list_all (\<lambda>s. representable (dt s)) samples"
  then have c: "list_all (converts localtime_utc) samples"
    by (simp add: list_all_iff converts_def localtime_utc_def fromtimestamp_utc_def
        representable_def)
  from r have "map (day_name_of localtime_utc) samples = map (\<lambda>s. strftime_a (dt s)) samples"
    by (simp add: list_all_iff day_name_of_def localtime_utc_def fromtimestamp_utc_def
        representable_def)
  then have k: "day_keys localtime_utc samples = first_seen (map (\<lambda>s. strftime_a (dt s)) samples)"
    by (simp only: day_keys_def)
  show "\<exists>out. summarize_daily_update localtime_utc samples = Inr out
         \<and> days out = take 5 (first_seen (map (\<lambda>s. strftime_a (dt s)) samples))"
    by (simp add: summarize_daily_update_Inr [OF c] k)
next
  assume "0 \<le> w \<and> list_all (\<lambda>s. representable (dt s + tz)) (take (nat (w div 3)) samples)"
  then show "\<exists>out. slice_hourly_update tz w samples = Inr out
         \<and> hours out =
             map (\<lambda>s. strftime_a (dt s + tz) @ '' '' @ strftime_I (dt s + tz) @ '' ''
                        @ strftime_p (dt s + tz))
               (take (nat (w div 3)) samples)"
    by (simp add: slice_hourly_update_Inr label_update_unstripped)
qed

lemma late_evening_hypotheses:
  "list_all (\<lambda>s. representable (dt s)) late_evening
   \<and> (0::int) \<le> 24
   \<and> list_all (\<lambda>s. representable (dt s + 7200)) (take (nat (24 div 3)) late_evening)"
  by code_simp

lemma late_evening_values:
  "take 5 (first_seen (map (\<lambda>s. strftime_a (dt s)) late_evening)) = [''Thu'']
   \<and> map (\<lambda>s. strftime_a (dt s + 7200) @ '' '' @ strftime_I (dt s + 7200) @ '' ''
                        @ strftime_p (dt s + 7200))
               (take (nat (24 div 3)) late_evening) = [''Fri 01 AM'']"
  by code_simp

theorem C5_day_key_without_offset_witness:
  "(\<exists>out. summarize_daily_update localtime_utc late_evening = Inr out \<and> days out = [''Thu''])
   \<and> (\<exists>out. slice_hourly_update 7200 24 late_evening = Inr out \<and> hours out = [''Fri 01 AM''])"
proof -
  from C5_day_key_without_offset [of localtime_utc late_evening 24 7200] late_evening_hypotheses
  have "(\<exists>out. summarize_daily_update localtime_utc late_evening = Inr out
         \<and> days out = take 5 (first_seen (map (\<lambda>s. strftime_a (dt s)) late_evening)))
      \<and> (\<exists>out. slice_hourly_update 7200 24 late_evening = Inr out
         \<and> hours out =
             map (\<lambda>s. strftime_a (dt s + 7200) @ '' '' @ strftime_I (dt s + 7200) @ '' ''
                        @ strftime_p (dt s + 7200))
               (take (nat (24 div 3)) late_evening))"
    by blast
  then show ?thesis by (simp only: late_evening_values)
qed

subsection \<open>Empty input, other windows and exceptions\<close>

lemma hour_label_new_App: "hour_label_new ts = hour_label_App ts"
  by (simp add: hour_label_new_def hour_label_App_def)

lemma hourly_loop_new_App: "hourly_loop_new tz xs acc = hourly_loop_App tz xs acc"
  by (induction xs arbitrary: acc) (simp_all add: hour_label_new_App split: sum.splits)

lemma daily_loop_new_App: "daily_loop_new lt xs dd = daily_loop_App lt xs dd"
  by (induction xs arbitrary: dd) (simp_all split: sum.splits)

text \<open>
  C7, as the claim has it, fails twice. A window that is no multiple of 3 is rounded
  down to one: the window 10 on the scenario gives the first three points, not an empty
  slice. And a timestamp that is no date of the years 1 to 9999 makes
  \<^verbatim>\<open>datetime.fromtimestamp\<close> raise, in the hourly loop and in the daily loop.
\<close>

theorem C7_counterexample:
  "map_sum id hours (slice_hourly_update 0 10 scenario)
     = Inr [''Thu 12 AM'', ''Thu 03 AM'', ''Thu 06 AM'']
   \<and> slice_hourly_update 0 24 year_10000 = Inl TimestampOutOfRange
   \<and> slice_hourly_App 0 year_10000 = Inl TimestampOutOfRange
   \<and> summarize_daily_update localtime_utc year_10000 = Inl TimestampOutOfRange"
  by code_simp

text \<open>
  C7, amended. On the empty list the hourly slice is empty for every window and offset,
  in the three scripts, and the daily summary is empty; nothing is raised. A window that
  is not negative gives the first \<open>window div 3\<close> samples, a multiple of 3 or not, when
  their local instants are representable, and the daily summary returns when the
  timestamps convert.
\<close>

theorem C7_empty_and_floor:
  "slice_hourly_update tz w [] = Inr no_hours
   \<and> slice_hourly_App tz [] = Inr no_hours
   \<and> slice_hourly_new tz [] = Inr no_hours
   \<and> summarize_daily_update lt [] = Inr no_days
   \<and> summarize_daily_App lt [] = Inr no_days
   \<and> summarize_daily_new lt [] = Inr no_days
   \<and> (0 \<le> w \<and> list_all (\<lambda>s. representable (dt s + tz)) (take (nat (w div 3)) samples) \<longrightarrow>
        (\<exists>out. slice_hourly_update tz w samples = Inr out
           \<and> length (hours out) = min (nat (w div 3)) (length samples)
           \<and> hours out = map (\<lambda>s. label_update (dt s + tz)) (take (nat (w div 3)) samples)
           \<and> temps out = map temp (take (nat (w div 3)) samples)
           \<and> conditions out = map (\<lambda>s. title (description s)) (take (nat (w div 3)) samples)
           \<and> icons out = map icon (take (nat (w div 3)) samples)))
   \<and> (list_all (converts lt) samples \<longrightarrow>
        (\<exists>out. summarize_daily_update lt samples = Inr out))"
proof (intro conjI impI)
  show "slice_hourly_update tz w [] = Inr no_hours"
    by (simp add: slice_hourly_update_def slice_to_Nil)
  show "slice_hourly_App tz [] = Inr no_hours"
    by (simp add: slice_hourly_App_def slice_to_Nil)
  show "slice_hourly_new tz [] = Inr no_hours"
    by (simp add: slice_hourly_new_def slice_to_Nil)
  show "summarize_daily_update lt [] = Inr no_days"
    by (simp add: summarize_daily_update_def slice_to_Nil)
  show "summarize_daily_App lt [] = Inr no_days"
    by (simp add: summarize_daily_App_def slice_to_Nil)
  show "summarize_daily_new lt [] = Inr no_days"
    by (simp add: summarize_daily_new_def slice_to_Nil)
next
  assume a: "0 \<le> w \<and> list_all (\<lambda>s. representable (dt s + tz)) (take (nat (w div 3)) samples)"
  then show "\<exists>out. slice_hourly_update tz w samples = Inr out
           \<and> length (hours out) = min (nat (w div 3)) (length samples)
           \<and> hours out = map (\<lambda>s. label_update (dt s + tz)) (take (nat (w div 3)) samples)
           \<and> temps out = map temp (take (nat (w div 3)) samples)
           \<and> conditions out = map (\<lambda>s. title (description s)) (take (nat (w div 3)) samples)
           \<and> icons out = map icon (take (nat (w div 3)) samples)"
    by (simp add: slice_hourly_update_Inr min.commute)
next
  assume c: "list_all (converts lt) samples"
  show "\<exists>out. summarize_daily_update lt samples = Inr out"
    by (simp add: summarize_daily_update_Inr [OF c])
qed

lemma scenario_window_10:
  "(0::int) \<le> 10 \<and> list_all (\<lambda>s. representable (dt s + 0)) (take (nat (10 div 3)) scenario)
   \<and> list_all (converts localtime_utc) scenario"
  by code_simp

lemma scenario_window_10_values:
  "min (nat (10 div 3)) (length scenario) = 3
   \<and> map temp (take (nat (10 div 3)) scenario) = [20, 19, 18]"
  by (simp add: scenario_def)

theorem C7_empty_and_floor_witness:
  "(\<exists>out. slice_hourly_update 0 10 scenario = Inr out \<and> length (hours out) = 3
      \<and> temps out = [20, 19, 18])
   \<and> (\<exists>out. summarize_daily_update localtime_utc scenario = Inr out)"
proof -
  from C7_empty_and_floor [of 0 10 localtime_utc scenario] scenario_window_10
  have "(\<exists>out. slice_hourly_update 0 10 scenario = Inr out
           \<and> length (hours out) = min (nat (10 div 3)) (length scenario)
           \<and> temps out = map temp (take (nat (10 div 3)) scenario))
      \<and> (\<exists>out. summarize_daily_update localtime_utc scenario = Inr out)"
    by blast
  then show ?thesis by (simp only: scenario_window_10_values)
qed

subsection \<open>The three scripts\<close>

lemma hour_label_cases:
  "(\<exists>e. hour_label_update ts = Inl e \<and> hour_label_App ts = Inl e)
   \<or> (\<exists>l l'. hour_label_update ts = Inr l \<and> hour_label_App ts = Inr l')"
  by (cases "representable ts")
    (simp_all add: hour_label_update_Inr hour_label_App_Inr hour_label_update_Inl
      hour_label_App_Inl)

lemma hourly_loop_update_App:
  "temps acc = temps acc' \<Longrightarrow> conditions acc = conditions acc' \<Longrightarrow> icons acc = icons acc' \<Longrightarrow>
   map_sum id (\<lambda>out. (temps out, conditions out, icons out)) (hourly_loop_update tz xs acc)
     = map_sum id (\<lambda>out. (temps out, conditions out, icons out)) (hourly_loop_App tz xs acc')"
proof (induction xs arbitrary: acc acc')
  case Nil
  then show ?case by simp
next
  case (Cons x xs)
  from hour_label_cases [of "dt x + tz"] show ?case
  proof
    assume "\<exists>e. hour_label_update (dt x + tz) = Inl e \<and> hour_label_App (dt x + tz) = Inl e"
    then show ?thesis by auto
  next
    assume "\<exists>l l'. hour_label_update (dt x + tz) = Inr l \<and> hour_label_App (dt x + tz) = Inr l'"
    then obtain l l' where l: "hour_label_update (dt x + tz) = Inr l"
      "hour_label_App (dt x + tz) = Inr l'" by blast
    have u: "hourly_loop_update tz (x # xs) acc = hourly_loop_update tz xs (append_hour acc l x)"
      using l(1) by simp
    have a: "hourly_loop_App tz (x # xs) acc' = hourly_loop_App tz xs (append_hour acc' l' x)"
      using l(2) by simp
    show ?thesis
      unfolding u a using Cons.prems by (intro Cons.IH) (simp_all add: append_hour_def)
  qed
qed

lemma map_snd_update:
  "map (\<lambda>p. (fst p, f (snd p))) (AList.update k v dd)
     = AList.update k (f v) (map (\<lambda>p. (fst p, f (snd p))) dd)"
  by (induction dd) auto

lemma map_of_map_snd:
  "map_of (map (\<lambda>p. (fst p, f (snd p))) dd) k = map_option f (map_of dd k)"
  by (induction dd) auto

lemma daily_step_update_temps:
  "\<exists>dd'. daily_step_update k t h i dd = Inr dd'
     \<and> map (\<lambda>p. (fst p, entry_temps (snd p))) dd'
         = AList.update k ((case map_of dd k of None \<Rightarrow> [] | Some e \<Rightarrow> entry_temps e) @ [t])
             (map (\<lambda>p. (fst p, entry_temps (snd p))) dd)"
proof (cases "map_of dd k")
  case None
  then show ?thesis
    by (simp add: daily_step_update_def Let_def update_conv' map_snd_update)
next
  case (Some e)
  then show ?thesis
    by (simp add: daily_step_update_def Let_def update_conv' map_snd_update)
qed

lemma daily_step_App_temps:
  "\<exists>dd'. daily_step_App k t i dd = Inr dd'
     \<and> map (\<lambda>p. (fst p, App_temps (snd p))) dd'
         = AList.update k ((case map_of dd k of None \<Rightarrow> [] | Some e \<Rightarrow> App_temps e) @ [t])
             (map (\<lambda>p. (fst p, App_temps (snd p))) dd)"
proof (cases "map_of dd k")
  case None
  then show ?thesis
    by (simp add: daily_step_App_def Let_def update_conv' map_snd_update)
next
  case (Some e)
  then show ?thesis
    by (simp add: daily_step_App_def Let_def update_conv' map_snd_update)
qed

lemma daily_step_sim:
  assumes R: "map (\<lambda>p. (fst p, entry_temps (snd p))) dd = map (\<lambda>p. (fst p, App_temps (snd p))) ddA"
  shows "\<exists>dd' ddA'. daily_step_update k t h i dd = Inr dd' \<and> daily_step_App k t i ddA = Inr ddA'
     \<and> map (\<lambda>p. (fst p, entry_temps (snd p))) dd' = map (\<lambda>p. (fst p, App_temps (snd p))) ddA'"
proof -
  have "map_of (map (\<lambda>p. (fst p, entry_temps (snd p))) dd) k
      = map_of (map (\<lambda>p. (fst p, App_temps (snd p))) ddA) k"
    by (simp only: R)
  then have m: "map_option entry_temps (map_of dd k) = map_option App_temps (map_of ddA k)"
    by (simp only: map_of_map_snd)
  have c: "(case map_of dd k of None \<Rightarrow> [] | Some e \<Rightarrow> entry_temps e)
      = (case map_of ddA k of None \<Rightarrow> [] | Some e \<Rightarrow> App_temps e)"
    using m by (cases "map_of dd k"; cases "map_of ddA k") simp_all
  from daily_step_update_temps [of k t h i dd] obtain dd' where
    u: "daily_step_update k t h i dd = Inr dd'"
    "map (\<lambda>p. (fst p, entry_temps (snd p))) dd'
         = AList.update k ((case map_of dd k of None \<Rightarrow> [] | Some e \<Rightarrow> entry_temps e) @ [t])
             (map (\<lambda>p. (fst p, entry_temps (snd p))) dd)"
    by blast
  from daily_step_App_temps [of k t i ddA] obtain ddA' where
    a: "daily_step_App k t i ddA = Inr ddA'"
    "map (\<lambda>p. (fst p, App_temps (snd p))) ddA'
         = AList.update k ((case map_of ddA k of None \<Rightarrow> [] | Some e \<Rightarrow> App_temps e) @ [t])
             (map (\<lambda>p. (fst p, App_temps (snd p))) ddA)"
    by blast
  from u(2) a(2) have "map (\<lambda>p. (fst p, entry_temps (snd p))) dd'
      = map (\<lambda>p. (fst p, App_temps (snd p))) ddA'"
    by (simp only: c R)
  with u(1) a(1) show ?thesis by blast
qed

lemma daily_loop_sim:
  "map (\<lambda>p. (fst p, entry_temps (snd p))) dd = map (\<lambda>p. (fst p, App_temps (snd p))) ddA \<Longrightarrow>
   (\<exists>e. daily_loop_update lt xs dd = Inl e \<and> daily_loop_App lt xs ddA = Inl e)
   \<or> (\<exists>d dA. daily_loop_update lt xs dd = Inr d \<and> daily_loop_App lt xs ddA = Inr dA
        \<and> map (\<lambda>p. (fst p, entry_temps (snd p))) d = map (\<lambda>p. (fst p, App_temps (snd p))) dA)"
proof (induction xs arbitrary: dd ddA)
  case Nil
  then show ?case by simp
next
  case (Cons x xs)
  show ?case
  proof (cases "lt (dt x)")
    case (Inl e)
    then show ?thesis by simp
  next
    case (Inr d)
    from daily_step_sim [OF Cons.prems, of "strftime_a d" "temp x" "hour_of d" "icon x"]
    obtain dd' ddA' where s:
      "daily_step_update (strftime_a d) (temp x) (hour_of d) (icon x) dd = Inr dd'"
      "daily_step_App (strftime_a d) (temp x) (icon x) ddA = Inr ddA'"
      "map (\<lambda>p. (fst p, entry_temps (snd p))) dd' = map (\<lambda>p. (fst p, App_temps (snd p))) ddA'"
      by blast
    from Cons.IH [OF s(3)] Inr s(1,2) show ?thesis by simp
  qed
qed

lemma emit_days_sim:
  "map (\<lambda>p. (fst p, entry_temps (snd p))) dd = map (\<lambda>p. (fst p, App_temps (snd p))) ddA \<Longrightarrow>
   days acc = days acc' \<Longrightarrow> temps_max acc = temps_max acc' \<Longrightarrow> temps_min acc = temps_min acc' \<Longrightarrow>
   map_sum id (\<lambda>out. (days out, temps_max out, temps_min out)) (emit_days_update dd acc)
     = map_sum id (\<lambda>out. (days out, temps_max out, temps_min out)) (emit_days_App ddA acc')"
proof (induction dd arbitrary: ddA acc acc')
  case Nil
  then show ?case by simp
next
  case (Cons p dd)
  obtain k e where p: "p = (k, e)" by (cases p)
  from Cons.prems(1) p obtain eA ddA' where
    a: "ddA = (k, eA) # ddA'" "entry_temps e = App_temps eA"
    "map (\<lambda>p. (fst p, entry_temps (snd p))) dd = map (\<lambda>p. (fst p, App_temps (snd p))) ddA'"
    by (cases ddA) auto
  show ?case
  proof (cases "np_max (App_temps eA)")
    case (Inl err)
    with p a show ?thesis by simp
  next
    case mx: (Inr mx)
    show ?thesis
    proof (cases "np_min (App_temps eA)")
      case (Inl err)
      with p a mx show ?thesis by simp
    next
      case mn: (Inr mn)
      have u: "emit_days_update (p # dd) acc =
              emit_days_update dd
                 \<lparr>days = days acc @ [k], temps_max = temps_max acc @ [mx],
                  temps_min = temps_min acc @ [mn],
                  icons_daily = icons_daily acc @ [entry_icon e]\<rparr>"
        using p a(2) mx mn by simp
      have v: "emit_days_App ddA acc' =
              emit_days_App ddA'
                 \<lparr>days = days acc' @ [k], temps_max = temps_max acc' @ [mx],
                  temps_min = temps_min acc' @ [mn],
                  icons_daily = icons_daily acc' @ [App_icon eA]\<rparr>"
        using a(1) mx mn by simp
      show ?thesis
        unfolding u v using Cons.prems(2-4) by (intro Cons.IH [OF a(3)]) simp_all
    qed
  qed
qed

lemma summarize_daily_sim:
  "map_sum id (\<lambda>out. (days out, temps_max out, temps_min out)) (summarize_daily_update lt samples)
     = map_sum id (\<lambda>out. (days out, temps_max out, temps_min out)) (summarize_daily_App lt samples)"
proof -
  have R0: "map (\<lambda>p. (fst p, entry_temps (snd p))) [] = map (\<lambda>p. (fst p, App_temps (snd p))) []"
    by simp
  from daily_loop_sim [OF R0, of lt samples] show ?thesis
  proof
    assume "\<exists>e. daily_loop_update lt samples [] = Inl e \<and> daily_loop_App lt samples [] = Inl e"
    then show ?thesis
      by (auto simp: summarize_daily_update_def summarize_daily_App_def)
  next
    assume "\<exists>d dA. daily_loop_update lt samples [] = Inr d \<and> daily_loop_App lt samples [] = Inr dA
        \<and> map (\<lambda>p. (fst p, entry_temps (snd p))) d = map (\<lambda>p. (fst p, App_temps (snd p))) dA"
    then obtain d dA where l: "daily_loop_update lt samples [] = Inr d"
      "daily_loop_App lt samples [] = Inr dA"
      and R: "map (\<lambda>p. (fst p, entry_temps (snd p))) d = map (\<lambda>p. (fst p, App_temps (snd p))) dA"
      by blast
    from R have "take 5 (map (\<lambda>p. (fst p, entry_temps (snd p))) d)
        = take 5 (map (\<lambda>p. (fst p, App_temps (snd p))) dA)"
      by (simp only:)
    then have R5: "map (\<lambda>p. (fst p, entry_temps (snd p))) (slice_to 5 d)
        = map (\<lambda>p. (fst p, App_temps (snd p))) (slice_to 5 dA)"
      by (simp only: take_map slice_to_def) simp
    have u: "summarize_daily_update lt samples = emit_days_update (slice_to 5 d) no_days"
      using l(1) by (simp add: summarize_daily_update_def)
    have v: "summarize_daily_App lt samples = emit_days_App (slice_to 5 dA) no_days"
      using l(2) by (simp add: summarize_daily_App_def)
    show ?thesis
      unfolding u v by (intro emit_days_sim [OF R5]) simp_all
  qed
qed

text \<open>
  C1, as the claim has it, fails on the scenario. The hourly labels of \<^verbatim>\<open>update.py\<close>
  have the weekday and keep the zero of the hour; those of \<^verbatim>\<open>App.py\<close> and \<^verbatim>\<open>new.py\<close>
  have no weekday and no zero. The icon of the day is that of the sample at noon in
  \<^verbatim>\<open>update.py\<close> and that of the day's first sample in \<^verbatim>\<open>App.py\<close> and \<^verbatim>\<open>new.py\<close>.
\<close>

theorem C1_counterexample:
  "map_sum id hours (slice_hourly_update 0 24 scenario)
     = Inr [''Thu 12 AM'', ''Thu 03 AM'', ''Thu 06 AM'', ''Thu 09 AM'',
            ''Thu 12 PM'', ''Thu 03 PM'', ''Thu 06 PM'', ''Thu 09 PM'']
   \<and> map_sum id hours (slice_hourly_App 0 scenario)
     = Inr [''12 AM'', ''3 AM'', ''6 AM'', ''9 AM'', ''12 PM'', ''3 PM'', ''6 PM'', ''9 PM'']
   \<and> map_sum id hours (slice_hourly_new 0 scenario)
     = Inr [''12 AM'', ''3 AM'', ''6 AM'', ''9 AM'', ''12 PM'', ''3 PM'', ''6 PM'', ''9 PM'']
   \<and> map_sum id icons_daily (summarize_daily_update localtime_utc scenario) = Inr [''04d'']
   \<and> map_sum id icons_daily (summarize_daily_App localtime_utc scenario) = Inr [''01n'']
   \<and> map_sum id icons_daily (summarize_daily_new localtime_utc scenario) = Inr [''01n'']"
  by code_simp

text \<open>
  C1, amended. \<^verbatim>\<open>new.py\<close> and \<^verbatim>\<open>App.py\<close> compute the same hourly slice and the same
  daily summary on every input, exceptions included. \<^verbatim>\<open>update.py\<close> with the window 24
  agrees with them on the temperatures, the conditions and the icons of the hourly
  slice, and on the days, their order, the maxima and the minima of the daily summary,
  and raises where they raise; the hourly labels and the icon of a day are its own.
\<close>

theorem C1_variants:
  "slice_hourly_new tz samples = slice_hourly_App tz samples
   \<and> summarize_daily_new lt samples = summarize_daily_App lt samples
   \<and> map_sum id (\<lambda>out. (temps out, conditions out, icons out)) (slice_hourly_update tz 24 samples)
       = map_sum id (\<lambda>out. (temps out, conditions out, icons out)) (slice_hourly_App tz samples)
   \<and> map_sum id (\<lambda>out. (days out, temps_max out, temps_min out))
         (summarize_daily_update lt samples)
       = map_sum id (\<lambda>out. (days out, temps_max out, temps_min out))
         (summarize_daily_App lt samples)"
proof (intro conjI)
  show "slice_hourly_new tz samples = slice_hourly_App tz samples"
    by (simp add: slice_hourly_new_def slice_hourly_App_def hourly_loop_new_App)
  show "summarize_daily_new lt samples = summarize_daily_App lt samples"
    by (simp add: summarize_daily_new_def summarize_daily_App_def daily_loop_new_App)
  have "slice_to (24 div 3) samples = slice_to 8 samples" by simp
  then show "map_sum id (\<lambda>out. (temps out, conditions out, icons out))
         (slice_hourly_update tz 24 samples)
       = map_sum id (\<lambda>out. (temps out, conditions out, icons out)) (slice_hourly_App tz samples)"
    unfolding slice_hourly_update_def slice_hourly_App_def
    by (simp only:) (rule hourly_loop_update_App, simp_all)
  show "map_sum id (\<lambda>out. (days out, temps_max out, temps_min out))
         (summarize_daily_update lt samples)
       = map_sum id (\<lambda>out. (days out, temps_max out, temps_min out))
         (summarize_daily_App lt samples)"
    by (rule summarize_daily_sim)
qed

end
